theory Spec2Isabelle
  imports Main "HOL-Library.Word"
begin

unbundle bit_operations_syntax

section \<open>AC200 companion chip: MFD core and EPHY control drivers\<close>

text \<open>
  The development embeds two drivers:
  \<^item> \<^verbatim>\<open>drivers/mfd/ac200.c\<close>: the register-range table, \<^verbatim>\<open>ac200_i2c_probe\<close> and
    \<^verbatim>\<open>ac200_i2c_remove\<close>;
  \<^item> \<^verbatim>\<open>drivers/phy/allwinner/ac200-ephy-ctl.c\<close>: the reset-line operations,
    \<^verbatim>\<open>ac200_ephy_ctl_disable\<close> and \<^verbatim>\<open>ac200_ephy_ctl_probe\<close>.

  Both drivers are sequential code over collaborators of the kernel (register map, clock
  framework, nvmem, device tree, registration calls). The collaborators are modelled as
  an explicit machine state that the functions pass along, together with, for each probe,
  a record of what the look-up and registration calls of that probe return.
\<close>

subsection \<open>Machine words and error numbers\<close>

type_synonym u8 = "8 word"
type_synonym u16 = "16 word"
type_synonym u32 = "32 word"

text \<open>\<^verbatim>\<open>BIT(n)\<close> of the kernel: a word with only bit \<open>n\<close> set.\<close>

definition BIT :: "nat \<Rightarrow> 'a::len word" where
  "BIT n = push_bit n 1"

text \<open>The error numbers the drivers name (values of the kernel's errno headers).\<close>

definition ENOMEM :: int where "ENOMEM = 12"
definition EINVAL :: int where "EINVAL = 22"
definition EPROBE_DEFER :: int where "EPROBE_DEFER = 517"

subsection \<open>Machine state\<close>

text \<open>
  Every call with an effect outside the driver is recorded in a log, in call order. A
  register access is logged when it is issued, whether or not the bus then reports an error.
\<close>

datatype event =
    ClkPrepareEnable
  | ClkDisableUnprepare
  | Msleep nat
  | RegWrite u32 u16
  | RegRead u32
  | MfdAddDevices "(string \<times> string) list"
  | ResetControllerRegister
  | GateClkRegister u32 nat
  | ClkProviderAdd

text \<open>
  \<^item> \<open>regs\<close>: the contents of the chip's 16-bit registers, by logical address;
  \<^item> \<open>bus_rets\<close>: the return codes of the coming bus transfers, in order (\<open>0\<close> is success,
    anything else the error code; once the list is used up every transfer succeeds);
  \<^item> \<open>clk_on\<close>: whether the reference clock is enabled;
  \<^item> \<open>children\<close>: the sub-devices published so far (name, compatible string);
  \<^item> \<open>log\<close>: the calls made so far.
\<close>

record machine =
  regs :: "u32 \<Rightarrow> u16"
  bus_rets :: "int list"
  clk_on :: bool
  children :: "(string \<times> string) list"
  log :: "event list"

definition emit :: "event \<Rightarrow> machine \<Rightarrow> machine" where
  "emit e s = s\<lparr>log := log s @ [e]\<rparr>"

text \<open>One bus transfer: takes the next scripted return code.\<close>

definition bus_xfer :: "machine \<Rightarrow> int \<times> machine" where
  "bus_xfer s = (case bus_rets s of [] \<Rightarrow> (0, s) | r # rs \<Rightarrow> (r, s\<lparr>bus_rets := rs\<rparr>))"

subsection \<open>Register map interface\<close>

text \<open>
  Modelled from the spec: the register-map calls (\<^verbatim>\<open>regmap_write\<close>, \<^verbatim>\<open>regmap_read\<close>,
  \<^verbatim>\<open>regmap_update_bits\<close>, \<^verbatim>\<open>regmap_set_bits\<close>, \<^verbatim>\<open>regmap_clear_bits\<close>,
  \<^verbatim>\<open>regmap_test_bits\<close>) belong to the kernel's regmap core, which is not among the driver
  sources. The spec's transport contract is \<open>read(addr) -> u16\<close>, \<open>write(addr, val) -> Result\<close>:
  no caching of register values, every access goes to the hardware, and a bus failure is
  returned to the caller. A transfer that fails leaves the register contents as they were.
  The bit operations are the read-modify-write the spec requires: read the register,
  replace the masked bits, write back when the value changed.
\<close>

definition regmap_write :: "u32 \<Rightarrow> u16 \<Rightarrow> machine \<Rightarrow> int \<times> machine" where
  "regmap_write reg val s =
     (let (ret, s1) = bus_xfer (emit (RegWrite reg val) s)
      in if ret \<noteq> 0 then (ret, s1) else (0, s1\<lparr>regs := (regs s1)(reg := val)\<rparr>))"

definition regmap_read :: "u32 \<Rightarrow> machine \<Rightarrow> (int + u16) \<times> machine" where
  "regmap_read reg s =
     (let (ret, s1) = bus_xfer (emit (RegRead reg) s)
      in if ret \<noteq> 0 then (Inl ret, s1) else (Inr (regs s1 reg), s1))"

definition regmap_update_bits :: "u32 \<Rightarrow> u16 \<Rightarrow> u16 \<Rightarrow> machine \<Rightarrow> int \<times> machine" where
  "regmap_update_bits reg msk val s =
     (case regmap_read reg s of
        (Inl ret, s1) \<Rightarrow> (ret, s1)
      | (Inr orig, s1) \<Rightarrow>
          (let tmp = (orig AND NOT msk) OR (val AND msk)
           in if tmp \<noteq> orig then regmap_write reg tmp s1 else (0, s1)))"

definition regmap_set_bits :: "u32 \<Rightarrow> u16 \<Rightarrow> machine \<Rightarrow> int \<times> machine" where
  "regmap_set_bits reg bits s = regmap_update_bits reg bits bits s"

definition regmap_clear_bits :: "u32 \<Rightarrow> u16 \<Rightarrow> machine \<Rightarrow> int \<times> machine" where
  "regmap_clear_bits reg bits s = regmap_update_bits reg bits 0 s"

definition regmap_test_bits :: "u32 \<Rightarrow> u16 \<Rightarrow> machine \<Rightarrow> int \<times> machine" where
  "regmap_test_bits reg bits s =
     (case regmap_read reg s of
        (Inl ret, s1) \<Rightarrow> (ret, s1)
      | (Inr val, s1) \<Rightarrow> ((if val AND bits = bits then 1 else 0), s1))"

subsection \<open>Clock framework\<close>

text \<open>
  \<^verbatim>\<open>clk_prepare_enable\<close> returns the code the clock framework gives (first argument) and
  turns the clock on when that code is \<open>0\<close>; \<^verbatim>\<open>clk_disable_unprepare\<close> cannot fail.
\<close>

definition clk_prepare_enable :: "int \<Rightarrow> machine \<Rightarrow> int \<times> machine" where
  "clk_prepare_enable ret s =
     (let s1 = emit ClkPrepareEnable s
      in if ret \<noteq> 0 then (ret, s1) else (0, s1\<lparr>clk_on := True\<rparr>))"

definition clk_disable_unprepare :: "machine \<Rightarrow> machine" where
  "clk_disable_unprepare s = (emit ClkDisableUnprepare s)\<lparr>clk_on := False\<rparr>"

definition msleep :: "nat \<Rightarrow> machine \<Rightarrow> machine" where
  "msleep ms s = emit (Msleep ms) s"

section \<open>MFD core driver (ac200.c)\<close>

definition AC200_SYS_CONTROL :: u32 where "AC200_SYS_CONTROL = 0x0002"
definition AC200_SYS_BG_CTL :: u32 where "AC200_SYS_BG_CTL = 0x0050"
definition AC200_TWI_REG_ADDR_H :: u32 where "AC200_TWI_REG_ADDR_H = 0xFE"
definition AC200_MAX_REG :: u32 where "AC200_MAX_REG = 0xA1F2"

text \<open>\<^verbatim>\<open>ac200_i2c_remove\<close>: stop the chip, then disable the clock. The result of the
  register write is ignored.\<close>

definition ac200_i2c_remove :: "machine \<Rightarrow> machine" where
  "ac200_i2c_remove s =
     (let (_, s1) = regmap_write AC200_SYS_CONTROL 0 s
      in clk_disable_unprepare s1)"

subsection \<open>Register range table\<close>

text \<open>
  \<^verbatim>\<open>struct regmap_range_cfg\<close> with the fields the driver's table sets; \<open>range_min\<close> is
  not named in the table and is therefore 0, as C initialises it.
\<close>

record regmap_range_cfg =
  range_min :: u32
  range_max :: u32
  selector_reg :: u32
  selector_mask :: u32
  selector_shift :: nat
  window_start :: u32
  window_len :: u32

definition ac200_range_cfg :: regmap_range_cfg where
  "ac200_range_cfg =
     \<lparr>range_min = 0,
      range_max = AC200_MAX_REG,
      selector_reg = AC200_TWI_REG_ADDR_H,
      selector_mask = 0xff,
      selector_shift = 0,
      window_start = 0,
      window_len = 256\<rparr>"

text \<open>
  Modelled from the spec: how the paged transport splits a logical address is decided by
  the kernel's regmap core, which is not among the driver sources. The spec gives the
  split as page-select byte \<open>= address >> 8\<close> and in-page offset \<open>= address & 0xFF\<close>.
\<close>

definition transport_page :: "u32 \<Rightarrow> u32" where
  "transport_page addr = drop_bit 8 addr"

definition transport_offset :: "u32 \<Rightarrow> u32" where
  "transport_offset addr = addr AND 0xFF"

subsection \<open>Child devices\<close>

definition ac200_cells :: "(string \<times> string) list" where
  "ac200_cells =
     [(''ac200-codec'', ''x-powers,ac200-codec''),
      (''ac200-ephy-ctl'', ''x-powers,ac200-ephy-ctl'')]"

text \<open>
  \<^verbatim>\<open>devm_mfd_add_devices\<close> returns the code the MFD core gives (first argument) and
  publishes the cells when that code is \<open>0\<close>.
\<close>

definition devm_mfd_add_devices ::
    "int \<Rightarrow> (string \<times> string) list \<Rightarrow> machine \<Rightarrow> int \<times> machine" where
  "devm_mfd_add_devices ret cells s =
     (let s1 = emit (MfdAddDevices cells) s
      in if ret \<noteq> 0 then (ret, s1) else (0, s1\<lparr>children := children s1 @ cells\<rparr>))"

subsection \<open>Bring-up\<close>

text \<open>
  What the collaborators answer during \<^verbatim>\<open>ac200_i2c_probe\<close>. For a call that returns a
  pointer, \<open>Inl e\<close> is an error pointer with \<^verbatim>\<open>PTR_ERR\<close> \<open>e\<close> and \<open>Inr\<close> a valid result;
  for a call that returns an \<^verbatim>\<open>int\<close> the field is that code.
\<close>

record i2c_env =
  i2c_kzalloc :: bool
  i2c_clk_get :: "int + unit"
  i2c_regmap_init :: "int + unit"
  i2c_bandgap_cell :: "int + unit"
  i2c_bandgap_read :: "int + u8 list"
  i2c_clk_enable :: int
  i2c_mfd_add :: int

text \<open>
  Reading a \<^verbatim>\<open>u16\<close> through a pointer into a two-byte nvmem buffer, on the little-endian
  cores this chip is paired with.
\<close>

definition load_u16 :: "u8 list \<Rightarrow> u16" where
  "load_u16 buf = ucast (buf ! 0) OR push_bit 8 (ucast (buf ! 1))"

text \<open>The \<^verbatim>\<open>err:\<close> label of \<^verbatim>\<open>ac200_i2c_probe\<close>.\<close>

definition ac200_i2c_probe_err :: "int \<Rightarrow> machine \<Rightarrow> (int + unit) \<times> machine" where
  "ac200_i2c_probe_err ret s = (Inl ret, clk_disable_unprepare s)"

text \<open>
  \<^verbatim>\<open>ac200_i2c_probe\<close>, in two parts. The result is \<open>Inr ()\<close> for \<^verbatim>\<open>return 0\<close> and
  \<open>Inl e\<close> for a return of the error code \<open>e\<close>.

  The first part runs up to the release of the nvmem buffer: it touches no hardware and
  either returns an error or has \<^verbatim>\<open>bgval\<close> loaded.
\<close>

definition ac200_i2c_load :: "i2c_env \<Rightarrow> int + u16" where
  "ac200_i2c_load env =
     (if \<not> i2c_kzalloc env then Inl (- ENOMEM)
      else (case i2c_clk_get env of
              Inl e \<Rightarrow> Inl e
            | Inr _ \<Rightarrow>
               (case i2c_regmap_init env of
                  Inl e \<Rightarrow> Inl e
                | Inr _ \<Rightarrow>
                   (case i2c_bandgap_cell env of
                      Inl e \<Rightarrow> Inl e
                    | Inr _ \<Rightarrow>
                       (case i2c_bandgap_read env of
                          Inl e \<Rightarrow> Inl e
                        | Inr bgdata \<Rightarrow>
                            if length bgdata \<noteq> 2 then Inl (- EINVAL)
                            else Inr (load_u16 bgdata))))))"

text \<open>The second part: clock, settling delay, register writes, child devices.\<close>

definition ac200_i2c_bringup :: "i2c_env \<Rightarrow> u16 \<Rightarrow> machine \<Rightarrow> (int + unit) \<times> machine" where
  "ac200_i2c_bringup env bgval s =
     (let (ret, s1) = clk_prepare_enable (i2c_clk_enable env) s
      in if ret \<noteq> 0 then (Inl ret, s1) else
      let s2 = msleep 40 s1;
          (ret, s3) = regmap_write AC200_SYS_CONTROL 0 s2
      in if ret \<noteq> 0 then ac200_i2c_probe_err ret s3 else
      let (ret, s4) = regmap_write AC200_SYS_CONTROL 1 s3
      in if ret \<noteq> 0 then ac200_i2c_probe_err ret s4 else
      let (ret, s5) =
            (if bgval \<noteq> 0 then regmap_write AC200_SYS_BG_CTL (0x8280 OR bgval) s4
             else (0, s4))
      in if ret \<noteq> 0 then ac200_i2c_probe_err ret s5 else
      let (ret, s6) = devm_mfd_add_devices (i2c_mfd_add env) ac200_cells s5
      in if ret \<noteq> 0 then ac200_i2c_probe_err ret s6 else (Inr (), s6))"

definition ac200_i2c_probe :: "i2c_env \<Rightarrow> machine \<Rightarrow> (int + unit) \<times> machine" where
  "ac200_i2c_probe env s =
     (case ac200_i2c_load env of
        Inl e \<Rightarrow> (Inl e, s)
      | Inr bgval \<Rightarrow> ac200_i2c_bringup env bgval s)"

section \<open>EPHY control driver (ac200-ephy-ctl.c)\<close>

subsection \<open>Register layout\<close>

definition AC200_SYS_EPHY_CTL0 :: u32 where "AC200_SYS_EPHY_CTL0 = 0x0014"
definition AC200_EPHY_RESET_INVALID :: u16 where "AC200_EPHY_RESET_INVALID = BIT 0"
definition AC200_EPHY_SYSCLK_GATING :: nat where "AC200_EPHY_SYSCLK_GATING = 1"

definition AC200_SYS_EPHY_CTL1 :: u32 where "AC200_SYS_EPHY_CTL1 = 0x0016"
definition AC200_EPHY_E_EPHY_MII_IO_EN :: u16 where "AC200_EPHY_E_EPHY_MII_IO_EN = BIT 0"
definition AC200_EPHY_E_LNK_LED_IO_EN :: u16 where "AC200_EPHY_E_LNK_LED_IO_EN = BIT 1"
definition AC200_EPHY_E_SPD_LED_IO_EN :: u16 where "AC200_EPHY_E_SPD_LED_IO_EN = BIT 2"
definition AC200_EPHY_E_DPX_LED_IO_EN :: u16 where "AC200_EPHY_E_DPX_LED_IO_EN = BIT 3"

definition AC200_EPHY_CTL :: u32 where "AC200_EPHY_CTL = 0x6000"
definition AC200_EPHY_SHUTDOWN :: u16 where "AC200_EPHY_SHUTDOWN = BIT 0"
definition AC200_EPHY_LED_POL :: u16 where "AC200_EPHY_LED_POL = BIT 1"
definition AC200_EPHY_CLK_SEL :: u16 where "AC200_EPHY_CLK_SEL = BIT 2"
definition AC200_EPHY_XMII_SEL :: u16 where "AC200_EPHY_XMII_SEL = BIT 11"

text \<open>The two field macros work on \<^verbatim>\<open>int\<close>/\<^verbatim>\<open>u32\<close> operands; the result is narrowed
  when it is stored in the \<^verbatim>\<open>u16\<close> variable.\<close>

definition AC200_EPHY_ADDR :: "u32 \<Rightarrow> u32" where
  "AC200_EPHY_ADDR x = push_bit 4 (x AND 0x1F)"

definition AC200_EPHY_CALIB :: "u32 \<Rightarrow> u32" where
  "AC200_EPHY_CALIB x = push_bit 12 (x AND 0xF)"

subsection \<open>Reset line\<close>

definition ephy_ctl_reset :: "machine \<Rightarrow> int \<times> machine" where
  "ephy_ctl_reset s =
     (let (ret, s1) = regmap_clear_bits AC200_SYS_EPHY_CTL0 AC200_EPHY_RESET_INVALID s
      in if ret \<noteq> 0 then (ret, s1)
         else regmap_set_bits AC200_SYS_EPHY_CTL0 AC200_EPHY_RESET_INVALID s1)"

definition ephy_ctl_assert :: "machine \<Rightarrow> int \<times> machine" where
  "ephy_ctl_assert s = regmap_clear_bits AC200_SYS_EPHY_CTL0 AC200_EPHY_RESET_INVALID s"

definition ephy_ctl_deassert :: "machine \<Rightarrow> int \<times> machine" where
  "ephy_ctl_deassert s = regmap_set_bits AC200_SYS_EPHY_CTL0 AC200_EPHY_RESET_INVALID s"

definition ephy_ctl_status :: "machine \<Rightarrow> int \<times> machine" where
  "ephy_ctl_status s = regmap_test_bits AC200_SYS_EPHY_CTL0 AC200_EPHY_RESET_INVALID s"

subsection \<open>Gated clock\<close>

text \<open>
  Modelled from the spec: the enable and disable operations of the clock registered by
  \<^verbatim>\<open>devm_clk_hw_register_regmap_gate\<close> are not among the driver sources; the driver only
  passes the register (\<open>AC200_SYS_EPHY_CTL0\<close>) and the bit index
  (\<open>AC200_EPHY_SYSCLK_GATING\<close>). The spec describes a clock that is enabled and disabled
  through that one bit of the system-control register shared with the reset line, by a
  read-modify-write.
\<close>

definition gate_clk_enable :: "machine \<Rightarrow> int \<times> machine" where
  "gate_clk_enable s =
     regmap_update_bits AC200_SYS_EPHY_CTL0 (BIT AC200_EPHY_SYSCLK_GATING)
       (BIT AC200_EPHY_SYSCLK_GATING) s"

definition gate_clk_disable :: "machine \<Rightarrow> int \<times> machine" where
  "gate_clk_disable s =
     regmap_update_bits AC200_SYS_EPHY_CTL0 (BIT AC200_EPHY_SYSCLK_GATING) 0 s"

subsection \<open>Attach\<close>

text \<open>\<^verbatim>\<open>ac200_ephy_ctl_disable\<close>: three writes whose results are ignored.\<close>

definition ac200_ephy_ctl_disable :: "machine \<Rightarrow> machine" where
  "ac200_ephy_ctl_disable s =
     (let (_, s1) = regmap_write AC200_EPHY_CTL AC200_EPHY_SHUTDOWN s;
          (_, s2) = regmap_write AC200_SYS_EPHY_CTL1 0 s1;
          (_, s3) = regmap_write AC200_SYS_EPHY_CTL0 0 s2
      in s3)"

text \<open>
  \<^verbatim>\<open>phy_interface_t\<close>: the driver names two enumerators; every other enumerator of the
  kernel's list takes the \<^verbatim>\<open>default\<close> branch and is kept by its number.
\<close>

datatype phy_interface_t =
    PHY_INTERFACE_MODE_MII
  | PHY_INTERFACE_MODE_RMII
  | PHY_INTERFACE_MODE_OTHER nat

definition GPIO_ACTIVE_LOW :: u32 where "GPIO_ACTIVE_LOW = 1"

text \<open>
  What the collaborators answer during \<^verbatim>\<open>ac200_ephy_ctl_probe\<close>, with the same
  convention as above; a device-tree read is \<open>Inl e\<close> when it returns the non-zero code
  \<open>e\<close> and \<open>Inr v\<close> when it returns 0 and stores \<open>v\<close>. \<open>ephy_clk_get\<close> carries the rate
  that \<^verbatim>\<open>clk_get_rate\<close> reports for the parent's clock.
\<close>

record ephy_env =
  ephy_kzalloc :: bool
  ephy_parent_regmap :: bool
  ephy_cal_cell :: "int + unit"
  ephy_cal_read :: "int + u8 list"
  ephy_phy_mode :: "int + phy_interface_t"
  ephy_led_polarity :: "int + u32"
  ephy_phy_address :: "int + u32"
  ephy_clk_get :: "int + nat"
  ephy_reset_register :: int
  ephy_gate_register :: "int + unit"
  ephy_clk_provider :: int

text \<open>The registration calls: logged, with the code the framework gives.\<close>

definition devm_reset_controller_register :: "int \<Rightarrow> machine \<Rightarrow> int \<times> machine" where
  "devm_reset_controller_register ret s = (ret, emit ResetControllerRegister s)"

definition devm_clk_hw_register_regmap_gate ::
    "(int + unit) \<Rightarrow> u32 \<Rightarrow> nat \<Rightarrow> machine \<Rightarrow> (int + unit) \<times> machine" where
  "devm_clk_hw_register_regmap_gate res reg bit_idx s = (res, emit (GateClkRegister reg bit_idx) s)"

definition devm_of_clk_add_hw_provider :: "int \<Rightarrow> machine \<Rightarrow> int \<times> machine" where
  "devm_of_clk_add_hw_provider ret s = (ret, emit ClkProviderAdd s)"

text \<open>The \<^verbatim>\<open>err_disable_ephy:\<close> label.\<close>

definition err_disable_ephy :: "int \<Rightarrow> machine \<Rightarrow> (int + unit) \<times> machine" where
  "err_disable_ephy ret s = (Inl ret, ac200_ephy_ctl_disable s)"

text \<open>
  \<^verbatim>\<open>ac200_ephy_ctl_probe\<close>, in three parts. The first two run up to \<^verbatim>\<open>clk_put\<close>:
  they touch no hardware and either return an error or have the value of \<^verbatim>\<open>ephy_ctl\<close>
  ready. This one is the part after the \<^verbatim>\<open>switch\<close> on the interface mode: LED
  polarity, PHY address and clock rate.
\<close>

definition ac200_ephy_ctl_fields :: "ephy_env \<Rightarrow> u16 \<Rightarrow> int + u16" where
  "ac200_ephy_ctl_fields env ephy_ctl0 =
     (case ephy_led_polarity env of
        Inl ret \<Rightarrow> Inl ret
      | Inr pol \<Rightarrow>
         (let ephy_ctl1 = (if pol = GPIO_ACTIVE_LOW then ephy_ctl0 OR AC200_EPHY_LED_POL
                           else ephy_ctl0)
          in (case ephy_phy_address env of
                Inl ret \<Rightarrow> Inl ret
              | Inr addr \<Rightarrow>
                 (let ephy_ctl2 = ephy_ctl1 OR ucast (AC200_EPHY_ADDR addr)
                  in (case ephy_clk_get env of
                        Inl e \<Rightarrow> Inl e
                      | Inr rate \<Rightarrow>
                          Inr (if rate = 24000000 then ephy_ctl2 OR AC200_EPHY_CLK_SEL
                               else ephy_ctl2))))))"

text \<open>The part up to and including the \<^verbatim>\<open>switch\<close>: allocation, parent register map,
  calibration cell, interface mode.\<close>

definition ac200_ephy_ctl_config :: "ephy_env \<Rightarrow> int + u16" where
  "ac200_ephy_ctl_config env =
     (if \<not> ephy_kzalloc env then Inl (- ENOMEM)
      else if \<not> ephy_parent_regmap env then Inl (- EPROBE_DEFER)
      else (case ephy_cal_cell env of
              Inl e \<Rightarrow> Inl e
            | Inr _ \<Rightarrow>
               (case ephy_cal_read env of
                  Inl e \<Rightarrow> Inl e
                | Inr caldata \<Rightarrow>
                    if length caldata \<noteq> 2 then Inl (- EINVAL)
                    else (let ephy_ctl =
                                (ucast (AC200_EPHY_CALIB (ucast (load_u16 caldata) + 3)) :: u16)
                          in (case ephy_phy_mode env of
                                Inl ret \<Rightarrow> Inl ret
                              | Inr phy_if \<Rightarrow>
                                 (case phy_if of
                                    PHY_INTERFACE_MODE_MII \<Rightarrow>
                                      ac200_ephy_ctl_fields env ephy_ctl
                                  | PHY_INTERFACE_MODE_RMII \<Rightarrow>
                                      ac200_ephy_ctl_fields env (ephy_ctl OR AC200_EPHY_XMII_SEL)
                                  | PHY_INTERFACE_MODE_OTHER _ \<Rightarrow> Inl (- EINVAL)))))))"

text \<open>The last part: the register writes and the registrations.\<close>

definition ac200_ephy_ctl_setup :: "ephy_env \<Rightarrow> u16 \<Rightarrow> machine \<Rightarrow> (int + unit) \<times> machine" where
  "ac200_ephy_ctl_setup env ephy_ctl s =
     (let (ret, s1) = regmap_write AC200_SYS_EPHY_CTL0 0 s
      in if ret \<noteq> 0 then (Inl ret, s1) else
      let (ret, s2) = regmap_write AC200_SYS_EPHY_CTL1
                        (AC200_EPHY_E_EPHY_MII_IO_EN OR AC200_EPHY_E_LNK_LED_IO_EN OR
                         AC200_EPHY_E_SPD_LED_IO_EN OR AC200_EPHY_E_DPX_LED_IO_EN) s1
      in if ret \<noteq> 0 then (Inl ret, s2) else
      let (ret, s3) = regmap_write AC200_EPHY_CTL ephy_ctl s2
      in if ret \<noteq> 0 then (Inl ret, s3) else
      let (ret, s4) = devm_reset_controller_register (ephy_reset_register env) s3
      in if ret \<noteq> 0 then err_disable_ephy ret s4 else
      (case devm_clk_hw_register_regmap_gate (ephy_gate_register env)
              AC200_SYS_EPHY_CTL0 AC200_EPHY_SYSCLK_GATING s4 of
         (Inl e, s5) \<Rightarrow> err_disable_ephy e s5
       | (Inr _, s5) \<Rightarrow>
          (let (ret, s6) = devm_of_clk_add_hw_provider (ephy_clk_provider env) s5
           in if ret \<noteq> 0 then err_disable_ephy ret s6 else (Inr (), s6))))"

text \<open>\<^verbatim>\<open>ac200_ephy_ctl_probe\<close>, with the same result convention as the MFD probe.\<close>

definition ac200_ephy_ctl_probe :: "ephy_env \<Rightarrow> machine \<Rightarrow> (int + unit) \<times> machine" where
  "ac200_ephy_ctl_probe env s =
     (case ac200_ephy_ctl_config env of
        Inl e \<Rightarrow> (Inl e, s)
      | Inr ephy_ctl \<Rightarrow> ac200_ephy_ctl_setup env ephy_ctl s)"

text \<open>The values written to one register, read off a log.\<close>

fun writes_to :: "u32 \<Rightarrow> event list \<Rightarrow> u16 list" where
  "writes_to reg [] = []"
| "writes_to reg (RegWrite r v # es) = (if r = reg then v # writes_to reg es else writes_to reg es)"
| "writes_to reg (_ # es) = writes_to reg es"

section \<open>Properties and concrete inputs used below\<close>

text \<open>
  \<open>rmw_only reg msk s s'\<close>: going from \<open>s\<close> to \<open>s'\<close>, no register other than \<open>reg\<close>
  changed, \<open>reg\<close> changed at most in the bits of \<open>msk\<close>, the log was only extended, and
  every value that the new calls wrote to \<open>reg\<close> carries, outside \<open>msk\<close>, the bits that
  \<open>reg\<close> held in \<open>s\<close>.
\<close>

definition rmw_only :: "u32 \<Rightarrow> u16 \<Rightarrow> machine \<Rightarrow> machine \<Rightarrow> bool" where
  "rmw_only reg msk s s' =
     (regs s' = (regs s)(reg := regs s' reg) \<and>
      regs s' reg AND NOT msk = regs s reg AND NOT msk \<and>
      take (length (log s)) (log s') = log s \<and>
      list_all (\<lambda>v. v AND NOT msk = regs s reg AND NOT msk)
        (writes_to reg (drop (length (log s)) (log s'))))"

text \<open>A machine right after power-on: registers zero, clock off, nothing published, no
  call made yet, and a bus that answers every transfer.\<close>

definition power_on :: machine where
  "power_on = \<lparr>regs = (\<lambda>_. 0), bus_rets = [], clk_on = False, children = [], log = []\<rparr>"

text \<open>The same machine with the PHY's reset line released (bit 0 of 0x0014 set).\<close>

definition phy_released :: machine where
  "phy_released = power_on\<lparr>regs := (regs power_on)(AC200_SYS_EPHY_CTL0 := 1)\<rparr>"

text \<open>Collaborators of the MFD probe that all succeed, with the given bandgap blob.\<close>

definition i2c_env_ok :: "u8 list \<Rightarrow> i2c_env" where
  "i2c_env_ok blob =
     \<lparr>i2c_kzalloc = True, i2c_clk_get = Inr (), i2c_regmap_init = Inr (),
      i2c_bandgap_cell = Inr (), i2c_bandgap_read = Inr blob,
      i2c_clk_enable = 0, i2c_mfd_add = 0\<rparr>"

text \<open>Collaborators of the EPHY probe that all succeed, for RMII, active-low LEDs, PHY
  address 5, calibration blob \<open>0A 00\<close> and a 24 MHz parent clock.\<close>

definition rmii_env :: ephy_env where
  "rmii_env =
     \<lparr>ephy_kzalloc = True, ephy_parent_regmap = True, ephy_cal_cell = Inr (),
      ephy_cal_read = Inr [0x0A, 0x00], ephy_phy_mode = Inr PHY_INTERFACE_MODE_RMII,
      ephy_led_polarity = Inr GPIO_ACTIVE_LOW, ephy_phy_address = Inr 0x05,
      ephy_clk_get = Inr 24000000, ephy_reset_register = 0,
      ephy_gate_register = Inr (), ephy_clk_provider = 0\<rparr>"

section \<open>Basic facts about the machine model\<close>

lemma log_regmap_write:
  "log (snd (regmap_write reg val s)) = log s @ [RegWrite reg val]"
  by (simp add: regmap_write_def bus_xfer_def emit_def split: list.splits)

lemma writes_to_append [simp]:
  "writes_to reg (xs @ ys) = writes_to reg xs @ writes_to reg ys"
  by (induction reg xs rule: writes_to.induct) auto

text \<open>Word facts behind the read-modify-write.\<close>

lemma word_rmw_frame: "((x AND NOT m) OR (v AND m)) AND NOT m = x AND NOT (m::u16)"
  by (simp add: bit_eq_iff bit_simps) blast

lemma word_set_bits_test: "((x AND NOT m) OR (m AND m)) AND m = (m::u16)"
  by (auto simp add: bit_eq_iff bit_simps)

lemma bit_outside_BIT:
  fixes x y :: u16
  assumes "x AND NOT (BIT n) = y AND NOT (BIT n)" and "m \<noteq> n"
  shows "bit x m = bit y m"
proof -
  have "bit (x AND NOT (BIT n)) m = bit (y AND NOT (BIT n)) m"
    using assms(1) by simp
  then show ?thesis
    using assms(2) by (auto simp add: BIT_def bit_simps dest: bit_imp_le_length)
qed

text \<open>On a bus that answers every transfer, an update of bits succeeds and stores the
  merged value; a test of bits reports whether all of them are set.\<close>

lemma update_bits_ok:
  assumes "\<forall>r\<in>set (bus_rets s). r = 0"
  shows "fst (regmap_update_bits reg msk val s) = 0"
    and "regs (snd (regmap_update_bits reg msk val s)) reg
           = (regs s reg AND NOT msk) OR (val AND msk)"
    and "\<forall>r\<in>set (bus_rets (snd (regmap_update_bits reg msk val s))). r = 0"
  using assms
  by (auto simp add: regmap_update_bits_def regmap_read_def regmap_write_def
      bus_xfer_def emit_def Let_def split: list.splits)

lemma test_bits_ok:
  assumes "\<forall>r\<in>set (bus_rets s). r = 0"
  shows "fst (regmap_test_bits reg bits s) = (if regs s reg AND bits = bits then 1 else 0)"
  using assms
  by (auto simp add: regmap_test_bits_def regmap_read_def bus_xfer_def emit_def Let_def
      split: list.splits)

text \<open>An update of bits that returns an error has changed no register, and whatever it
  returns it has issued at most one write, of the merged value.\<close>

lemma update_bits_failed:
  assumes "fst (regmap_update_bits reg msk val s) \<noteq> 0"
  shows "regs (snd (regmap_update_bits reg msk val s)) = regs s"
  using assms
  by (auto simp add: regmap_update_bits_def regmap_read_def regmap_write_def
      bus_xfer_def emit_def Let_def split: list.splits if_splits)

lemma update_bits_log:
  "\<exists>evs. log (snd (regmap_update_bits reg msk val s)) = log s @ evs \<and>
     (writes_to reg evs = [] \<or> writes_to reg evs = [(regs s reg AND NOT msk) OR (val AND msk)])"
  by (auto simp add: regmap_update_bits_def regmap_read_def regmap_write_def
      bus_xfer_def emit_def Let_def split: list.splits if_splits)

lemma rmw_only_trans:
  assumes "rmw_only reg msk s s1" and "rmw_only reg msk s1 s2"
  shows "rmw_only reg msk s s2"
proof -
  obtain e1 where e1: "log s1 = log s @ e1"
    using assms(1) unfolding rmw_only_def by (metis append_take_drop_id)
  obtain e2 where e2: "log s2 = log s1 @ e2"
    using assms(2) unfolding rmw_only_def by (metis append_take_drop_id)
  have r: "regs s2 = (regs s)(reg := regs s2 reg)"
    using assms unfolding rmw_only_def by (metis fun_upd_upd)
  show ?thesis
    using assms r unfolding rmw_only_def by (simp add: e1 e2)
qed

lemma rmw_only_update_bits:
  "rmw_only reg msk s (snd (regmap_update_bits reg msk val s))"
  by (auto simp add: rmw_only_def regmap_update_bits_def regmap_read_def regmap_write_def
      bus_xfer_def emit_def word_rmw_frame Let_def split: list.splits)

lemma rmw_only_bit:
  assumes "rmw_only reg (BIT n) s s'" and "m \<noteq> n"
  shows "bit (regs s' reg) m = bit (regs s reg) m"
  using assms bit_outside_BIT [of "regs s' reg" n "regs s reg" m]
  by (simp add: rmw_only_def)

section \<open>Teardown order\<close>

text \<open>
  Claim C9. On removal of the chip the driver first writes 0 to the system-control register
  0x0002 and then disables the reference clock. Whatever the state before and whatever the
  bus answers:
  \<^item> the calls added to the log are exactly that write followed by the clock disable;
  \<^item> the write uses one bus transfer, and when that transfer succeeds register 0x0002
    holds 0 afterwards and no other register has changed (when it fails, no register has
    changed);
  \<^item> the clock is off afterwards, and the published children are untouched.
\<close>

theorem ac200_i2c_remove_order:
  "log (ac200_i2c_remove s) = log s @ [RegWrite 0x0002 0, ClkDisableUnprepare]
   \<and> clk_on (ac200_i2c_remove s) = False
   \<and> regs (ac200_i2c_remove s)
       = (if list_all (\<lambda>r. r = 0) (take 1 (bus_rets s)) then (regs s)(0x0002 := 0)
          else regs s)
   \<and> bus_rets (ac200_i2c_remove s) = tl (bus_rets s)
   \<and> children (ac200_i2c_remove s) = children s"
  by (simp add: ac200_i2c_remove_def clk_disable_unprepare_def emit_def regmap_write_def
      bus_xfer_def AC200_SYS_CONTROL_def split: list.splits)

section \<open>Reset line and gated clock share one register\<close>

lemma rmw_only_assert:
  "rmw_only AC200_SYS_EPHY_CTL0 (BIT 0) s (snd (ephy_ctl_assert s))"
  by (simp add: ephy_ctl_assert_def regmap_clear_bits_def AC200_EPHY_RESET_INVALID_def
      rmw_only_update_bits)

lemma rmw_only_deassert:
  "rmw_only AC200_SYS_EPHY_CTL0 (BIT 0) s (snd (ephy_ctl_deassert s))"
  by (simp add: ephy_ctl_deassert_def regmap_set_bits_def AC200_EPHY_RESET_INVALID_def
      rmw_only_update_bits)

lemma rmw_only_reset:
  "rmw_only AC200_SYS_EPHY_CTL0 (BIT 0) s (snd (ephy_ctl_reset s))"
proof -
  let ?c = "regmap_clear_bits AC200_SYS_EPHY_CTL0 AC200_EPHY_RESET_INVALID s"
  have a: "rmw_only AC200_SYS_EPHY_CTL0 (BIT 0) s (snd ?c)"
    by (simp add: regmap_clear_bits_def AC200_EPHY_RESET_INVALID_def rmw_only_update_bits)
  have b: "rmw_only AC200_SYS_EPHY_CTL0 (BIT 0) (snd ?c)
      (snd (regmap_set_bits AC200_SYS_EPHY_CTL0 AC200_EPHY_RESET_INVALID (snd ?c)))"
    by (simp add: regmap_set_bits_def AC200_EPHY_RESET_INVALID_def rmw_only_update_bits)
  show ?thesis
    using a rmw_only_trans [OF a b]
    by (simp add: ephy_ctl_reset_def case_prod_beta)
qed

lemma rmw_only_gate_enable:
  "rmw_only AC200_SYS_EPHY_CTL0 (BIT 1) s (snd (gate_clk_enable s))"
  by (simp add: gate_clk_enable_def AC200_EPHY_SYSCLK_GATING_def rmw_only_update_bits)

lemma rmw_only_gate_disable:
  "rmw_only AC200_SYS_EPHY_CTL0 (BIT 1) s (snd (gate_clk_disable s))"
  by (simp add: gate_clk_disable_def AC200_EPHY_SYSCLK_GATING_def rmw_only_update_bits)

text \<open>
  Claim C5. Each reset-line operation (assert, deassert, pulse) is a read-modify-write of
  register 0x0014 that can change bit 0 only: no other register changes, every value it
  writes carries the other bits as the register held them, and in particular the
  clock-gate bit (bit 1) keeps its value. Conversely, enabling or disabling the gated clock
  can change bit 1 only, and the reset-valid bit (bit 0) keeps its value. This holds for
  every state and every answer of the bus.
\<close>

theorem reset_and_gate_bits_independent:
  "rmw_only AC200_SYS_EPHY_CTL0 (BIT 0) s (snd (ephy_ctl_assert s))
   \<and> rmw_only AC200_SYS_EPHY_CTL0 (BIT 0) s (snd (ephy_ctl_deassert s))
   \<and> rmw_only AC200_SYS_EPHY_CTL0 (BIT 0) s (snd (ephy_ctl_reset s))
   \<and> bit (regs (snd (ephy_ctl_assert s)) AC200_SYS_EPHY_CTL0) 1
       = bit (regs s AC200_SYS_EPHY_CTL0) 1
   \<and> bit (regs (snd (ephy_ctl_deassert s)) AC200_SYS_EPHY_CTL0) 1
       = bit (regs s AC200_SYS_EPHY_CTL0) 1
   \<and> bit (regs (snd (ephy_ctl_reset s)) AC200_SYS_EPHY_CTL0) 1
       = bit (regs s AC200_SYS_EPHY_CTL0) 1
   \<and> rmw_only AC200_SYS_EPHY_CTL0 (BIT 1) s (snd (gate_clk_enable s))
   \<and> rmw_only AC200_SYS_EPHY_CTL0 (BIT 1) s (snd (gate_clk_disable s))
   \<and> bit (regs (snd (gate_clk_enable s)) AC200_SYS_EPHY_CTL0) 0
       = bit (regs s AC200_SYS_EPHY_CTL0) 0
   \<and> bit (regs (snd (gate_clk_disable s)) AC200_SYS_EPHY_CTL0) 0
       = bit (regs s AC200_SYS_EPHY_CTL0) 0"
  using rmw_only_assert [of s] rmw_only_deassert [of s] rmw_only_reset [of s]
    rmw_only_gate_enable [of s] rmw_only_gate_disable [of s]
    rmw_only_bit [of AC200_SYS_EPHY_CTL0 0 s _ 1] rmw_only_bit [of AC200_SYS_EPHY_CTL0 1 s _ 0]
  by simp

section \<open>Reset pulse\<close>

text \<open>
  Claim C8. In every state whose bus answers all coming transfers, the reset pulse
  succeeds and the status read that follows it reports VALID: \<^verbatim>\<open>ephy_ctl_status\<close> returns
  1, the reset-valid bit (bit 0 of register 0x0014) being set.
\<close>

theorem pulse_then_status_valid:
  assumes "\<forall>r\<in>set (bus_rets s). r = 0"
  shows "fst (ephy_ctl_reset s) = 0
     \<and> fst (ephy_ctl_status (snd (ephy_ctl_reset s))) = 1
     \<and> bit (regs (snd (ephy_ctl_reset s)) AC200_SYS_EPHY_CTL0) 0"
proof -
  let ?c = "regmap_clear_bits AC200_SYS_EPHY_CTL0 AC200_EPHY_RESET_INVALID s"
  let ?d = "regmap_set_bits AC200_SYS_EPHY_CTL0 AC200_EPHY_RESET_INVALID (snd ?c)"
  have c0: "fst ?c = 0" and cok: "\<forall>r\<in>set (bus_rets (snd ?c)). r = 0"
    using update_bits_ok(1,3) [OF assms] by (simp_all add: regmap_clear_bits_def)
  have d0: "fst ?d = 0" and dok: "\<forall>r\<in>set (bus_rets (snd ?d)). r = 0"
    using update_bits_ok(1,3) [OF cok] by (simp_all add: regmap_set_bits_def)
  have dreg: "regs (snd ?d) AC200_SYS_EPHY_CTL0 AND AC200_EPHY_RESET_INVALID
                 = AC200_EPHY_RESET_INVALID"
    using update_bits_ok(2) [OF cok, of AC200_SYS_EPHY_CTL0 AC200_EPHY_RESET_INVALID
        AC200_EPHY_RESET_INVALID]
    by (simp add: regmap_set_bits_def word_set_bits_test)
  have r: "ephy_ctl_reset s = ?d"
    using c0 by (simp add: ephy_ctl_reset_def case_prod_beta)
  have st: "fst (ephy_ctl_status (snd ?d)) = 1"
    using test_bits_ok [OF dok] dreg by (simp add: ephy_ctl_status_def)
  have b: "bit (regs (snd ?d) AC200_SYS_EPHY_CTL0) 0"
  proof -
    have "bit (regs (snd ?d) AC200_SYS_EPHY_CTL0 AND AC200_EPHY_RESET_INVALID) 0
            = bit AC200_EPHY_RESET_INVALID 0"
      by (simp only: dreg)
    then show ?thesis
      by (simp add: bit_simps AC200_EPHY_RESET_INVALID_def BIT_def)
  qed
  show ?thesis
    using d0 st b by (simp add: r)
qed

theorem pulse_then_status_valid_witness:
  "set (bus_rets (power_on\<lparr>bus_rets := [0, 0, 0]\<rparr>)) = {0}
   \<and> fst (ephy_ctl_reset (power_on\<lparr>bus_rets := [0, 0, 0]\<rparr>)) = 0
   \<and> fst (ephy_ctl_status (snd (ephy_ctl_reset (power_on\<lparr>bus_rets := [0, 0, 0]\<rparr>)))) = 1
   \<and> bit (regs (snd (ephy_ctl_reset (power_on\<lparr>bus_rets := [0, 0, 0]\<rparr>)))
        AC200_SYS_EPHY_CTL0) 0"
  using pulse_then_status_valid [of "power_on\<lparr>bus_rets := [0, 0, 0]\<rparr>"]
  by simp

text \<open>
  Claim C10, as stated, fails: with the line released (bit 0 of 0x0014 set) and a bus that
  fails the first transfer with -5, the clear step fails at its read, the pulse returns -5
  after that single read, and the reset-valid bit is still set: the line is not left
  asserted.
\<close>

theorem failed_clear_keeps_line_released:
  "fst (ephy_ctl_assert (phy_released\<lparr>bus_rets := [- 5]\<rparr>)) = - 5
   \<and> fst (ephy_ctl_reset (phy_released\<lparr>bus_rets := [- 5]\<rparr>)) = - 5
   \<and> log (snd (ephy_ctl_reset (phy_released\<lparr>bus_rets := [- 5]\<rparr>)))
       = [RegRead AC200_SYS_EPHY_CTL0]
   \<and> regs (snd (ephy_ctl_reset (phy_released\<lparr>bus_rets := [- 5]\<rparr>))) AC200_SYS_EPHY_CTL0
         AND AC200_EPHY_RESET_INVALID \<noteq> 0"
  by (simp add: ephy_ctl_reset_def ephy_ctl_assert_def regmap_clear_bits_def
      regmap_update_bits_def regmap_read_def bus_xfer_def emit_def power_on_def
      phy_released_def AC200_EPHY_RESET_INVALID_def BIT_def)

text \<open>
  Claim C10, amended. If the clear step of a reset pulse fails, the pulse returns that
  error without attempting the set step: it ends exactly as the failed clear ended (same
  return code, same machine state, same calls), no value with the reset-valid bit set has
  been written, and, a failed transfer having no effect, every register holds what it held
  before the pulse. The line is therefore left as it was, which is asserted only if it was
  asserted before.
\<close>

theorem failed_clear_ends_pulse:
  assumes "fst (ephy_ctl_assert s) \<noteq> 0"
  shows "ephy_ctl_reset s = ephy_ctl_assert s
     \<and> regs (snd (ephy_ctl_reset s)) = regs s
     \<and> list_all (\<lambda>v. \<not> bit v 0)
         (writes_to AC200_SYS_EPHY_CTL0 (drop (length (log s)) (log (snd (ephy_ctl_reset s)))))"
proof -
  have e: "ephy_ctl_reset s = ephy_ctl_assert s"
    using assms by (simp add: ephy_ctl_reset_def ephy_ctl_assert_def case_prod_beta prod_eq_iff)
  have r: "regs (snd (ephy_ctl_assert s)) = regs s"
    using assms update_bits_failed [of AC200_SYS_EPHY_CTL0 AC200_EPHY_RESET_INVALID 0 s]
    by (simp add: ephy_ctl_assert_def regmap_clear_bits_def)
  obtain evs where l: "log (snd (ephy_ctl_assert s)) = log s @ evs"
    and w: "writes_to AC200_SYS_EPHY_CTL0 evs = [] \<or>
            writes_to AC200_SYS_EPHY_CTL0 evs
              = [(regs s AC200_SYS_EPHY_CTL0 AND NOT AC200_EPHY_RESET_INVALID) OR
                 (0 AND AC200_EPHY_RESET_INVALID)]"
    using update_bits_log [of AC200_SYS_EPHY_CTL0 AC200_EPHY_RESET_INVALID 0 s]
    by (auto simp add: ephy_ctl_assert_def regmap_clear_bits_def)
  have "list_all (\<lambda>v. \<not> bit v 0) (writes_to AC200_SYS_EPHY_CTL0 evs)"
    using w by (auto simp add: AC200_EPHY_RESET_INVALID_def BIT_def bit_simps)
  then show ?thesis
    using e r l by simp
qed

theorem failed_clear_ends_pulse_witness:
  "fst (ephy_ctl_assert (phy_released\<lparr>bus_rets := [0, - 5]\<rparr>)) \<noteq> 0
   \<and> (ephy_ctl_reset (phy_released\<lparr>bus_rets := [0, - 5]\<rparr>)
         = ephy_ctl_assert (phy_released\<lparr>bus_rets := [0, - 5]\<rparr>)
     \<and> regs (snd (ephy_ctl_reset (phy_released\<lparr>bus_rets := [0, - 5]\<rparr>)))
         = regs (phy_released\<lparr>bus_rets := [0, - 5]\<rparr>)
     \<and> list_all (\<lambda>v. \<not> bit v 0)
         (writes_to AC200_SYS_EPHY_CTL0
           (drop (length (log (phy_released\<lparr>bus_rets := [0, - 5]\<rparr>)))
             (log (snd (ephy_ctl_reset (phy_released\<lparr>bus_rets := [0, - 5]\<rparr>)))))))"
proof -
  have h: "fst (ephy_ctl_assert (phy_released\<lparr>bus_rets := [0, - 5]\<rparr>)) \<noteq> 0"
    by (simp add: ephy_ctl_assert_def regmap_clear_bits_def regmap_update_bits_def
        regmap_read_def regmap_write_def bus_xfer_def emit_def power_on_def phy_released_def
        AC200_EPHY_RESET_INVALID_def BIT_def)
  show ?thesis
    using h failed_clear_ends_pulse [OF h] by blast
qed

section \<open>Address decomposition of the paged transport\<close>

lemma word_page_offset_recompose: "push_bit 8 (drop_bit 8 A) OR (A AND 0xFF) = (A::u32)"
proof -
  have "(0xFF :: u32) = mask 8" by (simp add: mask_eq_exp_minus_1)
  then show ?thesis
    by (auto simp add: bit_eq_iff bit_simps)
qed

lemma word_offset_bound: "(A::u32) AND 0xFF < 256"
proof -
  have "A AND 0xFF \<le> 0xFF" by (rule word_and_le1)
  then show ?thesis by (simp add: word_le_nat_alt word_less_nat_alt)
qed

lemma word_page_div: "drop_bit 8 (A::u32) = A div 256"
  using drop_bit_eq_div [of 8 A] by simp

lemma word_offset_mod: "(A::u32) AND 0xFF = A mod 256"
proof -
  have "(0xFF :: u32) = mask 8" by (simp add: mask_eq_exp_minus_1)
  then show ?thesis
    using take_bit_eq_mod [of 8 A] by (simp add: take_bit_eq_mask)
qed

lemma word_page_fits_byte:
  assumes "(A::u32) \<le> 0xA1F2"
  shows "drop_bit 8 A AND 0xFF = drop_bit 8 A"
proof -
  have "unat A \<le> 0xA1F2" using assms by (simp add: word_le_nat_alt)
  then have "unat A div 256 < 256"
    by simp
  then have "unat (drop_bit 8 A) < 256"
    by (simp add: drop_bit_eq_div unat_div)
  then have "drop_bit 8 A < 256"
    by (simp add: word_less_nat_alt)
  then have "drop_bit 8 A < 2 ^ 8" by simp
  then have "drop_bit 8 A AND mask 8 = drop_bit 8 A"
    by (rule less_mask_eq)
  moreover have "(0xFF :: u32) = mask 8" by (simp add: mask_eq_exp_minus_1)
  ultimately show ?thesis by simp
qed

text \<open>
  Claim C6. For every logical address \<open>A\<close> up to the table's \<open>range_max\<close> (0xA1F2), the
  split into page \<open>A >> 8\<close> and offset \<open>A & 0xFF\<close> has an offset below 256 and
  \<open>(page << 8) | offset\<close> gives \<open>A\<close> back. The split is the one the driver's range table
  describes (window of 256 registers starting at 0, range starting at 0), the page fits
  the table's selector mask, and the table names 0xFE as the selector register.
\<close>

theorem address_split_roundtrip:
  assumes "A \<le> range_max ac200_range_cfg"
  shows "transport_offset A < 256
     \<and> push_bit 8 (transport_page A) OR transport_offset A = A
     \<and> transport_page A = (A - range_min ac200_range_cfg) div window_len ac200_range_cfg
     \<and> transport_offset A = (A - range_min ac200_range_cfg) mod window_len ac200_range_cfg
     \<and> push_bit (selector_shift ac200_range_cfg) (transport_page A)
           AND selector_mask ac200_range_cfg = transport_page A
     \<and> selector_reg ac200_range_cfg = 0xFE
     \<and> window_start ac200_range_cfg = 0
     \<and> window_len ac200_range_cfg = 256
     \<and> range_max ac200_range_cfg = 0xA1F2"
proof -
  have a: "A \<le> 0xA1F2"
    using assms by (simp add: ac200_range_cfg_def AC200_MAX_REG_def)
  show ?thesis
    using word_page_fits_byte [OF a]
    by (simp add: transport_page_def transport_offset_def ac200_range_cfg_def
        AC200_MAX_REG_def AC200_TWI_REG_ADDR_H_def word_page_offset_recompose
        word_offset_bound word_page_div [symmetric] word_offset_mod [symmetric])
qed

theorem address_split_roundtrip_witness:
  "(0x6000 :: u32) \<le> range_max ac200_range_cfg
   \<and> transport_page 0x6000 = 0x60 \<and> transport_offset 0x6000 = 0
   \<and> transport_offset 0x6000 < 256
   \<and> push_bit 8 (transport_page 0x6000) OR transport_offset 0x6000 = 0x6000"
  using address_split_roundtrip [of "0x6000"]
  by (simp add: ac200_range_cfg_def AC200_MAX_REG_def transport_page_def transport_offset_def)

section \<open>Chip bring-up\<close>

lemma bringup_bg_writes:
  "writes_to AC200_SYS_BG_CTL (log (snd (ac200_i2c_bringup env bgval s)))
     = writes_to AC200_SYS_BG_CTL (log s) @
       (if bgval \<noteq> 0 \<and> i2c_clk_enable env = 0 \<and> list_all (\<lambda>r. r = 0) (take 2 (bus_rets s))
        then [0x8280 OR bgval] else [])"
  by (auto simp add: ac200_i2c_bringup_def ac200_i2c_probe_err_def
      clk_prepare_enable_def clk_disable_unprepare_def msleep_def regmap_write_def bus_xfer_def
      emit_def devm_mfd_add_devices_def AC200_SYS_BG_CTL_def AC200_SYS_CONTROL_def Let_def
      split: list.splits)

text \<open>
  Claim C3, as stated, fails: for the bandgap blob \<open>00 01\<close> (value 0x0100) bring-up writes
  0x8380 to register 0x0050, not 0x8280 OR'd with the low byte of the value (which is
  0x8280).
\<close>

theorem bandgap_write_not_low_byte:
  "load_u16 [0x00, 0x01] = 0x0100
   \<and> writes_to AC200_SYS_BG_CTL (log (snd (ac200_i2c_probe (i2c_env_ok [0x00, 0x01]) power_on)))
       = [0x8380]
   \<and> 0x8280 OR (load_u16 [0x00, 0x01] AND 0xFF) \<noteq> (0x8380 :: u16)"
  by (simp add: ac200_i2c_probe_def ac200_i2c_load_def ac200_i2c_bringup_def i2c_env_ok_def
      power_on_def load_u16_def clk_prepare_enable_def msleep_def regmap_write_def bus_xfer_def
      emit_def devm_mfd_add_devices_def AC200_SYS_BG_CTL_def AC200_SYS_CONTROL_def)

text \<open>
  Claim C3, amended. During chip bring-up the writes to the bandgap-control register
  0x0050 are as follows, for every answer of the collaborators and of the bus: none when
  no bandgap value was loaded or the loaded value is zero; none when bring-up stops before
  the bandgap step (the clock could not be enabled or one of the two system-control writes
  failed); otherwise exactly one, of 0x8280 OR'd with the whole 16-bit calibration value.
\<close>

theorem bandgap_write_iff_nonzero:
  "writes_to AC200_SYS_BG_CTL (log (snd (ac200_i2c_probe env s)))
     = writes_to AC200_SYS_BG_CTL (log s) @
       (case ac200_i2c_load env of
          Inl e \<Rightarrow> []
        | Inr bgval \<Rightarrow>
            if bgval \<noteq> 0 \<and> i2c_clk_enable env = 0 \<and> list_all (\<lambda>r. r = 0) (take 2 (bus_rets s))
            then [0x8280 OR bgval] else [])"
  by (simp add: ac200_i2c_probe_def bringup_bg_writes split: sum.splits)

text \<open>
  Claim C4. When bring-up reaches the RUN step (a bandgap value was loaded, the clock was
  enabled, the write of 0 to 0x0002 succeeded) and the write of 1 to 0x0002 fails with
  code \<open>r\<close>, the probe returns \<open>r\<close>, the clock is disabled, and no child device is
  published: the calls made are the clock enable, the 40 ms sleep, the two writes and the
  clock disable, and nothing else.
\<close>

theorem run_write_failure_unwinds:
  assumes "ac200_i2c_load env = Inr bgval"
    and "i2c_clk_enable env = 0"
    and "bus_rets s = 0 # r # rs"
    and "r \<noteq> 0"
  shows "fst (ac200_i2c_probe env s) = Inl r
     \<and> clk_on (snd (ac200_i2c_probe env s)) = False
     \<and> children (snd (ac200_i2c_probe env s)) = children s
     \<and> log (snd (ac200_i2c_probe env s))
         = log s @ [ClkPrepareEnable, Msleep 40, RegWrite AC200_SYS_CONTROL 0,
                    RegWrite AC200_SYS_CONTROL 1, ClkDisableUnprepare]"
  using assms
  by (simp add: ac200_i2c_probe_def ac200_i2c_bringup_def ac200_i2c_probe_err_def
      clk_prepare_enable_def clk_disable_unprepare_def msleep_def regmap_write_def bus_xfer_def
      emit_def)

theorem run_write_failure_unwinds_witness:
  "ac200_i2c_load (i2c_env_ok [0x34, 0x12]) = Inr 0x1234
   \<and> i2c_clk_enable (i2c_env_ok [0x34, 0x12]) = 0
   \<and> bus_rets (power_on\<lparr>bus_rets := [0, - 5]\<rparr>) = 0 # (- 5) # []
   \<and> (- 5 :: int) \<noteq> 0
   \<and> fst (ac200_i2c_probe (i2c_env_ok [0x34, 0x12]) (power_on\<lparr>bus_rets := [0, - 5]\<rparr>))
       = Inl (- 5)
   \<and> clk_on (snd (ac200_i2c_probe (i2c_env_ok [0x34, 0x12]) (power_on\<lparr>bus_rets := [0, - 5]\<rparr>)))
       = False
   \<and> children (snd (ac200_i2c_probe (i2c_env_ok [0x34, 0x12]) (power_on\<lparr>bus_rets := [0, - 5]\<rparr>)))
       = []
   \<and> log (snd (ac200_i2c_probe (i2c_env_ok [0x34, 0x12]) (power_on\<lparr>bus_rets := [0, - 5]\<rparr>)))
       = [ClkPrepareEnable, Msleep 40, RegWrite AC200_SYS_CONTROL 0,
          RegWrite AC200_SYS_CONTROL 1, ClkDisableUnprepare]"
proof -
  have l: "ac200_i2c_load (i2c_env_ok [0x34, 0x12]) = Inr 0x1234"
    by (simp add: ac200_i2c_load_def i2c_env_ok_def load_u16_def)
  have c: "i2c_clk_enable (i2c_env_ok [0x34, 0x12]) = 0"
    by (simp add: i2c_env_ok_def)
  have b: "bus_rets (power_on\<lparr>bus_rets := [0, - 5]\<rparr>) = 0 # (- 5) # []"
    by simp
  have n: "(- 5 :: int) \<noteq> 0"
    by simp
  show ?thesis
    using l c n run_write_failure_unwinds [OF l c b n]
    by (simp add: power_on_def)
qed

section \<open>EPHY control attach\<close>

lemmas ephy_consts = AC200_EPHY_CALIB_def AC200_EPHY_ADDR_def AC200_EPHY_XMII_SEL_def
  AC200_EPHY_LED_POL_def AC200_EPHY_CLK_SEL_def GPIO_ACTIVE_LOW_def BIT_def
  AC200_EPHY_E_EPHY_MII_IO_EN_def AC200_EPHY_E_LNK_LED_IO_EN_def
  AC200_EPHY_E_SPD_LED_IO_EN_def AC200_EPHY_E_DPX_LED_IO_EN_def AC200_EPHY_SHUTDOWN_def
  AC200_SYS_EPHY_CTL0_def AC200_SYS_EPHY_CTL1_def AC200_EPHY_CTL_def
  AC200_EPHY_SYSCLK_GATING_def

lemma rmii_env_config: "ac200_ephy_ctl_config rmii_env = Inr 0xD856"
  by (simp add: ac200_ephy_ctl_config_def ac200_ephy_ctl_fields_def rmii_env_def load_u16_def
      ephy_consts)

lemma rmii_env_registrations:
  "ephy_reset_register rmii_env = 0"
  "ephy_gate_register rmii_env = Inr ()"
  "ephy_clk_provider rmii_env = 0"
  by (simp_all add: rmii_env_def)

text \<open>
  Claim C1. For interface mode RMII, active-low LED polarity, PHY address 0x05, calibration
  trim 0x0A and a 24 MHz reference clock, the value computed at attach is 0xD856: the
  calibration field 0xD000, the RMII bit 0x0800, the LED-polarity bit 0x0002, the address
  field 0x0050 and the clock-select bit 0x0004. On a bus that answers every transfer the
  attach succeeds and writes that value, once, to register 0x6000, which then holds it.
\<close>

theorem ephy_ctl_value_rmii_example:
  "ucast (AC200_EPHY_CALIB (0x0A + 3)) = (0xD000 :: u16)
   \<and> AC200_EPHY_XMII_SEL = 0x0800
   \<and> AC200_EPHY_LED_POL = 0x0002
   \<and> ucast (AC200_EPHY_ADDR 0x05) = (0x0050 :: u16)
   \<and> AC200_EPHY_CLK_SEL = 0x0004
   \<and> ac200_ephy_ctl_config rmii_env = Inr 0xD856
   \<and> fst (ac200_ephy_ctl_probe rmii_env (s\<lparr>bus_rets := []\<rparr>)) = Inr ()
   \<and> writes_to AC200_EPHY_CTL (log (snd (ac200_ephy_ctl_probe rmii_env (s\<lparr>bus_rets := []\<rparr>))))
       = writes_to AC200_EPHY_CTL (log s) @ [0xD856]
   \<and> regs (snd (ac200_ephy_ctl_probe rmii_env (s\<lparr>bus_rets := []\<rparr>))) 0x6000 = 0xD856"
proof -
  have p: "fst (ac200_ephy_ctl_probe rmii_env (s\<lparr>bus_rets := []\<rparr>)) = Inr ()
   \<and> writes_to AC200_EPHY_CTL (log (snd (ac200_ephy_ctl_probe rmii_env (s\<lparr>bus_rets := []\<rparr>))))
       = writes_to AC200_EPHY_CTL (log s) @ [0xD856]
   \<and> regs (snd (ac200_ephy_ctl_probe rmii_env (s\<lparr>bus_rets := []\<rparr>))) 0x6000 = 0xD856"
    by (simp add: ac200_ephy_ctl_probe_def rmii_env_config ac200_ephy_ctl_setup_def
        regmap_write_def bus_xfer_def emit_def devm_reset_controller_register_def
        devm_clk_hw_register_regmap_gate_def devm_of_clk_add_hw_provider_def
        rmii_env_registrations AC200_SYS_EPHY_CTL0_def AC200_SYS_EPHY_CTL1_def
        AC200_EPHY_CTL_def)
  have f: "ucast (AC200_EPHY_CALIB (0x0A + 3)) = (0xD000 :: u16)
   \<and> AC200_EPHY_XMII_SEL = 0x0800
   \<and> AC200_EPHY_LED_POL = 0x0002
   \<and> ucast (AC200_EPHY_ADDR 0x05) = (0x0050 :: u16)
   \<and> AC200_EPHY_CLK_SEL = 0x0004"
    by (simp add: ephy_consts)
  show ?thesis
    using rmii_env_config p f by simp
qed

text \<open>
  Claim C2 at a failing input: the collaborators of the RMII example and a bus that
  answers the writes to 0x0014 and 0x0016 and fails the write to 0x6000 with -5. The
  attach returns -5 right after that write; the log holds the three set-up writes and no
  shutdown write, and the IO-enable register 0x0016 still holds 0xF.
\<close>

theorem ephy_ctl_write_failure_no_shutdown:
  "fst (ac200_ephy_ctl_probe rmii_env (power_on\<lparr>bus_rets := [0, 0, - 5]\<rparr>)) = Inl (- 5)
   \<and> log (snd (ac200_ephy_ctl_probe rmii_env (power_on\<lparr>bus_rets := [0, 0, - 5]\<rparr>)))
       = [RegWrite 0x0014 0, RegWrite 0x0016 0xF, RegWrite 0x6000 0xD856]
   \<and> regs (snd (ac200_ephy_ctl_probe rmii_env (power_on\<lparr>bus_rets := [0, 0, - 5]\<rparr>))) 0x0016
       = 0xF"
  by (simp add: ac200_ephy_ctl_probe_def rmii_env_config ac200_ephy_ctl_setup_def
      regmap_write_def bus_xfer_def emit_def power_on_def ephy_consts)

text \<open>
  The other failures after the IO-enable step do shut the PHY down: when the three set-up
  writes succeed and one of the three registrations fails, the attach fails and the last
  three calls are the shutdown sequence of \<^verbatim>\<open>ac200_ephy_ctl_disable\<close>.
\<close>

lemma log_ephy_ctl_disable:
  "log (ac200_ephy_ctl_disable s)
     = log s @ [RegWrite AC200_EPHY_CTL AC200_EPHY_SHUTDOWN, RegWrite AC200_SYS_EPHY_CTL1 0,
                RegWrite AC200_SYS_EPHY_CTL0 0]"
  by (simp add: ac200_ephy_ctl_disable_def case_prod_beta log_regmap_write)

lemma registration_failure_shuts_down:
  assumes "ac200_ephy_ctl_config env = Inr v"
    and "list_all (\<lambda>r. r = 0) (take 3 (bus_rets s))"
    and "ephy_reset_register env \<noteq> 0 \<or> isl (ephy_gate_register env)
           \<or> ephy_clk_provider env \<noteq> 0"
  shows "isl (fst (ac200_ephy_ctl_probe env s))"
    and "\<exists>evs. log (snd (ac200_ephy_ctl_probe env s))
           = log s @ evs @ [RegWrite AC200_EPHY_CTL AC200_EPHY_SHUTDOWN,
                            RegWrite AC200_SYS_EPHY_CTL1 0, RegWrite AC200_SYS_EPHY_CTL0 0]"
  using assms
  by (auto simp add: ac200_ephy_ctl_probe_def ac200_ephy_ctl_setup_def regmap_write_def
      bus_xfer_def emit_def devm_reset_controller_register_def err_disable_ephy_def
      devm_clk_hw_register_regmap_gate_def devm_of_clk_add_hw_provider_def
      log_ephy_ctl_disable Let_def
      split: list.splits sum.splits)

text \<open>
  Claim C7. If the device tree gives an interface mode other than MII and RMII, the attach
  fails and hands the machine back untouched: no call is made, so the number of writes to
  each of 0x0014, 0x0016 and 0x6000 is what it was. When the steps before the mode check
  pass (allocation, parent register map, a two-byte calibration blob), the error is
  \<open>-EINVAL\<close>.
\<close>

theorem unsupported_mode_no_write:
  assumes "ephy_phy_mode env = Inr m"
    and "m \<noteq> PHY_INTERFACE_MODE_MII" and "m \<noteq> PHY_INTERFACE_MODE_RMII"
  shows "isl (fst (ac200_ephy_ctl_probe env s))
     \<and> snd (ac200_ephy_ctl_probe env s) = s
     \<and> length (writes_to AC200_SYS_EPHY_CTL0 (log (snd (ac200_ephy_ctl_probe env s))))
         = length (writes_to AC200_SYS_EPHY_CTL0 (log s))
     \<and> length (writes_to AC200_SYS_EPHY_CTL1 (log (snd (ac200_ephy_ctl_probe env s))))
         = length (writes_to AC200_SYS_EPHY_CTL1 (log s))
     \<and> length (writes_to AC200_EPHY_CTL (log (snd (ac200_ephy_ctl_probe env s))))
         = length (writes_to AC200_EPHY_CTL (log s))
     \<and> (ephy_kzalloc env \<and> ephy_parent_regmap env \<and> \<not> isl (ephy_cal_cell env)
          \<and> (\<exists>b0 b1. ephy_cal_read env = Inr [b0, b1])
        \<longrightarrow> fst (ac200_ephy_ctl_probe env s) = Inl (- EINVAL))"
proof -
  obtain n where m: "m = PHY_INTERFACE_MODE_OTHER n"
    using assms(2,3) by (cases m) auto
  have c: "isl (ac200_ephy_ctl_config env)"
    using assms(1) by (simp add: ac200_ephy_ctl_config_def m split: sum.splits)
  then obtain e where e: "ac200_ephy_ctl_config env = Inl e"
    by (cases "ac200_ephy_ctl_config env") auto
  have p: "ac200_ephy_ctl_probe env s = (Inl e, s)"
    by (simp add: ac200_ephy_ctl_probe_def e)
  have v: "ephy_kzalloc env \<and> ephy_parent_regmap env \<and> \<not> isl (ephy_cal_cell env)
          \<and> (\<exists>b0 b1. ephy_cal_read env = Inr [b0, b1])
        \<longrightarrow> ac200_ephy_ctl_config env = Inl (- EINVAL)"
    using assms(1) by (auto simp add: ac200_ephy_ctl_config_def m split: sum.splits)
  show ?thesis
    using v by (auto simp add: p e)
qed

theorem unsupported_mode_no_write_witness:
  "ephy_phy_mode (rmii_env\<lparr>ephy_phy_mode := Inr (PHY_INTERFACE_MODE_OTHER 9)\<rparr>)
     = Inr (PHY_INTERFACE_MODE_OTHER 9)
   \<and> PHY_INTERFACE_MODE_OTHER 9 \<noteq> PHY_INTERFACE_MODE_MII
   \<and> PHY_INTERFACE_MODE_OTHER 9 \<noteq> PHY_INTERFACE_MODE_RMII
   \<and> ephy_kzalloc (rmii_env\<lparr>ephy_phy_mode := Inr (PHY_INTERFACE_MODE_OTHER 9)\<rparr>)
   \<and> ephy_parent_regmap (rmii_env\<lparr>ephy_phy_mode := Inr (PHY_INTERFACE_MODE_OTHER 9)\<rparr>)
   \<and> \<not> isl (ephy_cal_cell (rmii_env\<lparr>ephy_phy_mode := Inr (PHY_INTERFACE_MODE_OTHER 9)\<rparr>))
   \<and> ephy_cal_read (rmii_env\<lparr>ephy_phy_mode := Inr (PHY_INTERFACE_MODE_OTHER 9)\<rparr>)
       = Inr [0x0A, 0x00]
   \<and> ac200_ephy_ctl_probe (rmii_env\<lparr>ephy_phy_mode := Inr (PHY_INTERFACE_MODE_OTHER 9)\<rparr>)
         (power_on\<lparr>bus_rets := [- 5]\<rparr>)
       = (Inl (- EINVAL), power_on\<lparr>bus_rets := [- 5]\<rparr>)"
  using unsupported_mode_no_write
    [of "rmii_env\<lparr>ephy_phy_mode := Inr (PHY_INTERFACE_MODE_OTHER 9)\<rparr>"
        "PHY_INTERFACE_MODE_OTHER 9" "power_on\<lparr>bus_rets := [- 5]\<rparr>"]
  by (simp add: rmii_env_def prod_eq_iff)

end
